theory Spec2Isabelle
  imports Complex_Main "HOL-Library.Word"
begin

section \<open>libAKMtastic: vectors, calibrators and the fusion engine\<close>

text \<open>
  A shallow embedding of \<^verbatim>\<open>src/libs/akmtastic/akmtastic.cpp\<close>. Each C++ class is a
  record of its fields, each method a function from the object (and the arguments) to
  the updated object (and the result). The C type \<^verbatim>\<open>float\<close> is read as \<^typ>\<open>real\<close>:
  rounding, infinities and NaN are not modelled, so a statement below is about the
  arithmetic the source writes, carried out exactly. The C type \<^verbatim>\<open>int\<close> is a 32-bit
  word, read as a signed number by \<open>sint\<close>.
\<close>

subsection \<open>class Vector\<close>

text \<open>The array \<^verbatim>\<open>float v[3]\<close>; the fields are \<^verbatim>\<open>v[0]\<close>, \<^verbatim>\<open>v[1]\<close>, \<^verbatim>\<open>v[2]\<close>.\<close>

record Vector =
  v0 :: real
  v1 :: real
  v2 :: real

text \<open>\<^verbatim>\<open>Vector()\<close>: all three components are set to \<^verbatim>\<open>0.0f\<close>.\<close>

definition Vector_default :: Vector where
  "Vector_default = \<lparr>v0 = 0, v1 = 0, v2 = 0\<rparr>"

text \<open>\<^verbatim>\<open>set(x, y, z)\<close>, which \<^verbatim>\<open>Vector(x, y, z)\<close> calls.\<close>

definition Vector_set :: "Vector \<Rightarrow> real \<Rightarrow> real \<Rightarrow> real \<Rightarrow> Vector" where
  "Vector_set v a b c = v\<lparr>v0 := a, v1 := b, v2 := c\<rparr>"

definition Vector_xyz :: "real \<Rightarrow> real \<Rightarrow> real \<Rightarrow> Vector" where
  "Vector_xyz a b c = Vector_set Vector_default a b c"

text \<open>\<^verbatim>\<open>multiply(const Vector &m)\<close>: componentwise product.\<close>

definition Vector_multiply :: "Vector \<Rightarrow> Vector \<Rightarrow> Vector" where
  "Vector_multiply v m = v\<lparr>v0 := v0 v * v0 m, v1 := v1 v * v1 m, v2 := v2 v * v2 m\<rparr>"

text \<open>\<^verbatim>\<open>multiply(float m)\<close>, also the static \<^verbatim>\<open>Vector::multiply(a, b)\<close> on a copy.\<close>

definition Vector_multiply_f :: "Vector \<Rightarrow> real \<Rightarrow> Vector" where
  "Vector_multiply_f v m = v\<lparr>v0 := v0 v * m, v1 := v1 v * m, v2 := v2 v * m\<rparr>"

text \<open>\<^verbatim>\<open>divide(float d)\<close>, also the static \<^verbatim>\<open>Vector::divide(a, b)\<close> on a copy.\<close>

definition Vector_divide :: "Vector \<Rightarrow> real \<Rightarrow> Vector" where
  "Vector_divide v d = v\<lparr>v0 := v0 v / d, v1 := v1 v / d, v2 := v2 v / d\<rparr>"

definition Vector_add :: "Vector \<Rightarrow> Vector \<Rightarrow> Vector" where
  "Vector_add v m = v\<lparr>v0 := v0 v + v0 m, v1 := v1 v + v1 m, v2 := v2 v + v2 m\<rparr>"

definition Vector_length :: "Vector \<Rightarrow> real" where
  "Vector_length v = sqrt (v0 v * v0 v + v1 v * v1 v + v2 v * v2 v)"

definition Vector_dot :: "Vector \<Rightarrow> Vector \<Rightarrow> real" where
  "Vector_dot v o' = v0 v * v0 o' + v1 v * v1 o' + v2 v * v2 o'"

definition Vector_x :: "Vector \<Rightarrow> real" where
  "Vector_x v = v0 v"

definition Vector_y :: "Vector \<Rightarrow> real" where
  "Vector_y v = v1 v"

definition Vector_z :: "Vector \<Rightarrow> real" where
  "Vector_z v = v2 v"

subsection \<open>class Average\<close>

text \<open>The class has no field; \<^verbatim>\<open>push\<close> returns the reference it is given.\<close>

datatype Average = Average

definition Average_push :: "Average \<Rightarrow> Vector \<Rightarrow> Vector" where
  "Average_push a v = v"

subsection \<open>class Calibrator\<close>

text \<open>
  The constructor \<^verbatim>\<open>Calibrator()\<close> has an empty body and no initialiser list, so both
  fields are built by \<^verbatim>\<open>Vector()\<close>.
\<close>

record Calibrator =
  scale :: Vector
  translation :: Vector

definition Calibrator_new :: Calibrator where
  "Calibrator_new = \<lparr>scale = Vector_default, translation = Vector_default\<rparr>"

text \<open>\<^verbatim>\<open>Calibrator::push\<close> and \<^verbatim>\<open>Calibrator::reset\<close> have empty bodies.\<close>

definition Calibrator_push :: "'a Calibrator_scheme \<Rightarrow> Vector \<Rightarrow> 'a Calibrator_scheme" where
  "Calibrator_push c val = c"

definition Calibrator_reset :: "'a Calibrator_scheme \<Rightarrow> 'a Calibrator_scheme" where
  "Calibrator_reset c = c"

text \<open>
  \<^verbatim>\<open>Calibrator::fix(Vector &val)\<close> changes its argument in place and not the
  calibrator; the function returns the new value of \<^verbatim>\<open>val\<close>.
\<close>

definition Calibrator_fix :: "'a Calibrator_scheme \<Rightarrow> Vector \<Rightarrow> Vector" where
  "Calibrator_fix c val = Vector_multiply (Vector_add val (translation c)) (scale c)"

subsection \<open>class AccCalibrator\<close>

record AccCalibrator = Calibrator +
  g :: Vector

definition REFRESH :: int where
  "REFRESH = 10"

definition ERROR :: real where
  "ERROR = 0.05"

definition GRAVITY_SMOOTH :: real where
  "GRAVITY_SMOOTH = 0.8"

definition AccCalibrator_new :: AccCalibrator where
  "AccCalibrator_new =
     \<lparr>scale = Vector_default, translation = Vector_default, g = Vector_default\<rparr>"

text \<open>
  \<^verbatim>\<open>AccCalibrator::push\<close>. The body of \<^verbatim>\<open>Calibrator::push\<close> is empty, so the state
  alone does not show whether the push reached it. The function therefore returns, with
  the new calibrator, the list of the arguments \<^verbatim>\<open>Calibrator::push\<close> is called with:
  empty on the early return and when the test fails, the vector passed otherwise. The
  two tests compare exact values here and rounded binary32 values in the source, so
  they can decide differently near the thresholds; nothing below depends on which
  samples pass them.
\<close>

definition AccCalibrator_push_calls :: "AccCalibrator \<Rightarrow> Vector \<Rightarrow> AccCalibrator \<times> Vector list" where
  "AccCalibrator_push_calls a val =
     (let a1 = a\<lparr>g := Vector_multiply_f (g a) GRAVITY_SMOOTH\<rparr>;
          a2 = a1\<lparr>g := Vector_add (g a1) (Vector_multiply_f val (1 - GRAVITY_SMOOTH))\<rparr>;
          al = Vector_length val;
          gl = Vector_length (g a2)
      in if al = 0 \<or> gl = 0 then (a2, [])
         else
           let an = Vector_divide val al;
               gn = Vector_divide (g a2) gl
           in if \<bar>al - gl\<bar> < ERROR \<and> Vector_dot an gn > 1 - ERROR
              then (Calibrator_push a2 (g a2), [g a2])
              else (a2, []))"

definition AccCalibrator_push :: "AccCalibrator \<Rightarrow> Vector \<Rightarrow> AccCalibrator" where
  "AccCalibrator_push a val = fst (AccCalibrator_push_calls a val)"

definition AccCalibrator_fix :: "AccCalibrator \<Rightarrow> Vector \<Rightarrow> Vector" where
  "AccCalibrator_fix a val = Calibrator_fix a val"

definition AccCalibrator_reset :: "AccCalibrator \<Rightarrow> AccCalibrator" where
  "AccCalibrator_reset a = Calibrator_reset (a\<lparr>g := Vector_set (g a) 0 0 0\<rparr>)"

subsection \<open>class MagCalibrator\<close>

text \<open>
  The class adds no field to \<^verbatim>\<open>Calibrator\<close>. It overrides \<^verbatim>\<open>push\<close> and \<^verbatim>\<open>fix\<close>
  with empty bodies; \<^verbatim>\<open>reset\<close> calls \<^verbatim>\<open>Calibrator::reset\<close>.
\<close>

type_synonym MagCalibrator = Calibrator

definition MagCalibrator_new :: MagCalibrator where
  "MagCalibrator_new = Calibrator_new"

definition MagCalibrator_push :: "MagCalibrator \<Rightarrow> Vector \<Rightarrow> MagCalibrator" where
  "MagCalibrator_push m val = m"

definition MagCalibrator_fix :: "MagCalibrator \<Rightarrow> Vector \<Rightarrow> Vector" where
  "MagCalibrator_fix m val = val"

definition MagCalibrator_reset :: "MagCalibrator \<Rightarrow> MagCalibrator" where
  "MagCalibrator_reset m = Calibrator_reset m"

subsection \<open>class Akmtastic\<close>

record Akmtastic =
  accCalibrator :: AccCalibrator
  accAverage :: Average
  accVal :: Vector
  magCalibrator :: MagCalibrator
  magAverage :: Average
  magVal :: Vector
  oriVal :: Vector
  oriCalculated :: bool
  started :: bool
  fd :: "32 word"

text \<open>
  The constructor ignores its three arguments (\<^verbatim>\<open>maxFormNumber\<close>, \<^verbatim>\<open>regs\<close>,
  \<^verbatim>\<open>magLayout\<close>). Its initialiser list names \<^verbatim>\<open>accCalibrator\<close>, \<^verbatim>\<open>magCalibrator\<close>,
  \<^verbatim>\<open>started\<close> and \<^verbatim>\<open>fd\<close>; the three vectors are built by \<^verbatim>\<open>Vector()\<close>, and
  \<^verbatim>\<open>oriCalculated\<close> is left uninitialised: its first value is the parameter \<open>oc\<close>.
\<close>

definition Akmtastic_new :: "bool \<Rightarrow> Akmtastic" where
  "Akmtastic_new oc =
     \<lparr>accCalibrator = AccCalibrator_new, accAverage = Average, accVal = Vector_default,
      magCalibrator = MagCalibrator_new, magAverage = Average, magVal = Vector_default,
      oriVal = Vector_default, oriCalculated = oc, started = False, fd = - 1\<rparr>"

definition Akmtastic_start :: "Akmtastic \<Rightarrow> string \<Rightarrow> 32 word \<times> Akmtastic" where
  "Akmtastic_start e path =
     (if started e then (- 1, e) else (0, e\<lparr>started := True\<rparr>))"

definition Akmtastic_stop :: "Akmtastic \<Rightarrow> 32 word \<times> Akmtastic" where
  "Akmtastic_stop e =
     (if \<not> started e then (- 1, e) else (0, e\<lparr>started := False\<rparr>))"

text \<open>The conversion of a C \<^verbatim>\<open>int\<close> to \<^verbatim>\<open>float\<close>.\<close>

definition to_float :: "32 word \<Rightarrow> real" where
  "to_float i = real_of_int (sint i)"

text \<open>
  \<^verbatim>\<open>pushAcceleration\<close>. With \<^verbatim>\<open>sensitivity = 0\<close> the C quotient \<^verbatim>\<open>720.f / 0\<close> is an
  infinity, where the quotient of reals below is 0; the value only reaches \<^verbatim>\<open>accVal\<close>
  and the calibrator's \<^verbatim>\<open>g\<close>, which no getter reads.
\<close>

definition Akmtastic_pushAcceleration ::
    "Akmtastic \<Rightarrow> 32 word \<Rightarrow> 32 word \<Rightarrow> 32 word \<Rightarrow> 32 word \<Rightarrow> 32 word \<times> Akmtastic" where
  "Akmtastic_pushAcceleration e x y z sensitivity =
     (let e1 = e\<lparr>accVal := Vector_xyz (to_float x) (to_float y) (to_float z)\<rparr>;
          e2 = e1\<lparr>accVal := Vector_multiply_f (accVal e1) (720 / to_float sensitivity)\<rparr>;
          e3 = e2\<lparr>accVal := Average_push (accAverage e2) (accVal e2)\<rparr>;
          e4 = e3\<lparr>accCalibrator := AccCalibrator_push (accCalibrator e3) (accVal e3)\<rparr>;
          e5 = e4\<lparr>accVal := AccCalibrator_fix (accCalibrator e4) (accVal e4)\<rparr>;
          e6 = e5\<lparr>oriCalculated := False\<rparr>
      in (0, e6))"

definition Akmtastic_pushMagnetic ::
    "Akmtastic \<Rightarrow> 32 word \<Rightarrow> 32 word \<Rightarrow> 32 word \<Rightarrow> 32 word \<Rightarrow> 32 word \<Rightarrow> 32 word \<times> Akmtastic" where
  "Akmtastic_pushMagnetic e x y z status period =
     (let e1 = e\<lparr>magVal := Vector_xyz (to_float x) (to_float y) (to_float z)\<rparr>;
          e2 = e1\<lparr>magVal := Average_push (magAverage e1) (magVal e1)\<rparr>;
          e3 = e2\<lparr>magCalibrator := MagCalibrator_push (magCalibrator e2) (magVal e2)\<rparr>;
          e4 = e3\<lparr>magVal := MagCalibrator_fix (magCalibrator e3) (magVal e3)\<rparr>;
          e5 = e4\<lparr>oriCalculated := False\<rparr>
      in (0, e5))"

text \<open>
  \<^verbatim>\<open>getOrientation\<close> is \<^verbatim>\<open>const\<close>, but \<^verbatim>\<open>oriCalculated\<close> is \<^verbatim>\<open>mutable\<close>: the
  function returns the vector and the engine with the flag set.
\<close>

definition Akmtastic_getOrientation :: "Akmtastic \<Rightarrow> Vector \<times> Akmtastic" where
  "Akmtastic_getOrientation e =
     (let e1 = (if \<not> oriCalculated e then e\<lparr>oriCalculated := True\<rparr> else e)
      in (oriVal e1, e1))"

definition Akmtastic_getMagnetic :: "Akmtastic \<Rightarrow> Vector" where
  "Akmtastic_getMagnetic e = magVal e"

definition Akmtastic_getCalibrationGoodness :: "Akmtastic \<Rightarrow> 32 word" where
  "Akmtastic_getCalibrationGoodness e = 0"

definition Akmtastic_recalibrate :: "Akmtastic \<Rightarrow> Akmtastic" where
  "Akmtastic_recalibrate e = e\<lparr>accCalibrator := AccCalibrator_reset (accCalibrator e)\<rparr>"

definition Akmtastic_changeFormFactor :: "Akmtastic \<Rightarrow> 32 word \<Rightarrow> 32 word" where
  "Akmtastic_changeFormFactor e formFactor = 0"

subsection \<open>Sequences of calls\<close>

text \<open>
  The public methods of the engine, and the engine after a sequence of calls on a newly
  constructed one: these are its reachable states.
\<close>

datatype call =
    Start string
  | Stop
  | PushAcceleration "32 word" "32 word" "32 word" "32 word"
  | PushMagnetic "32 word" "32 word" "32 word" "32 word" "32 word"
  | GetOrientation
  | GetMagnetic
  | GetCalibrationGoodness
  | Recalibrate
  | ChangeFormFactor "32 word"

fun exec :: "Akmtastic \<Rightarrow> call \<Rightarrow> Akmtastic" where
  "exec e (Start path) = snd (Akmtastic_start e path)"
| "exec e Stop = snd (Akmtastic_stop e)"
| "exec e (PushAcceleration x y z sensitivity) = snd (Akmtastic_pushAcceleration e x y z sensitivity)"
| "exec e (PushMagnetic x y z status period) = snd (Akmtastic_pushMagnetic e x y z status period)"
| "exec e GetOrientation = snd (Akmtastic_getOrientation e)"
| "exec e GetMagnetic = e"
| "exec e GetCalibrationGoodness = e"
| "exec e Recalibrate = Akmtastic_recalibrate e"
| "exec e (ChangeFormFactor formFactor) = e"

definition run :: "call list \<Rightarrow> Akmtastic \<Rightarrow> Akmtastic" where
  "run cs e = foldl exec e cs"


subsection \<open>The orientation the specification describes\<close>




section \<open>Properties\<close>

subsection \<open>The accelerometer calibrator\<close>

text \<open>A push changes neither the scale nor the translation.\<close>

lemma AccCalibrator_push_scale: "scale (AccCalibrator_push a val) = scale a"
  by (simp add: AccCalibrator_push_def AccCalibrator_push_calls_def Let_def Calibrator_push_def)

lemma AccCalibrator_push_translation: "translation (AccCalibrator_push a val) = translation a"
  by (simp add: AccCalibrator_push_def AccCalibrator_push_calls_def Let_def Calibrator_push_def)

text \<open>
  C3, at the input where the source departs from it. A newly constructed accelerometer
  calibrator has translation \<open>(0, 0, 0)\<close> and scale \<open>(0, 0, 0)\<close>, not \<open>(1, 1, 1)\<close>: both
  fields are built by \<^verbatim>\<open>Vector()\<close>. Its \<^verbatim>\<open>fix\<close> turns \<open>(1, 2, 3)\<close> into \<open>(0, 0, 0)\<close>,
  where the identity correction returns \<open>(1, 2, 3)\<close>; so \<^verbatim>\<open>pushAcceleration(1, 2, 3, 720)\<close>
  on a newly constructed engine caches the acceleration \<open>(0, 0, 0)\<close>.
\<close>

theorem C3_new_calibrator_scale_zero:
  "translation AccCalibrator_new = Vector_xyz 0 0 0 \<and>
   scale AccCalibrator_new = Vector_xyz 0 0 0 \<and>
   scale AccCalibrator_new \<noteq> Vector_xyz 1 1 1 \<and>
   scale Calibrator_new = Vector_xyz 0 0 0 \<and>
   AccCalibrator_fix AccCalibrator_new (Vector_xyz 1 2 3) = Vector_xyz 0 0 0 \<and>
   AccCalibrator_fix AccCalibrator_new (Vector_xyz 1 2 3) \<noteq> Vector_xyz 1 2 3 \<and>
   accVal (snd (Akmtastic_pushAcceleration (Akmtastic_new False) 1 2 3 720)) = Vector_xyz 0 0 0"
  by (simp add: AccCalibrator_new_def Calibrator_new_def AccCalibrator_fix_def Calibrator_fix_def
      Vector_xyz_def Vector_set_def Vector_default_def Vector_add_def Vector_multiply_def
      Akmtastic_pushAcceleration_def Akmtastic_new_def Let_def AccCalibrator_push_scale)

text \<open>
  C6. For every accelerometer calibrator, \<^verbatim>\<open>reset()\<close> sets the gravity estimate \<open>g\<close> to
  zero and leaves translation and scale as they are, so \<^verbatim>\<open>fix(v)\<close> after the reset is
  \<^verbatim>\<open>fix(v)\<close> before it, for every \<open>v\<close>. (The calibrator has no other field:
  \<^verbatim>\<open>Calibrator::reset\<close>, which the reset calls, has an empty body.)
\<close>

theorem C6_AccCalibrator_reset_keeps_correction:
  "g (AccCalibrator_reset a) = Vector_xyz 0 0 0 \<and>
   translation (AccCalibrator_reset a) = translation a \<and>
   scale (AccCalibrator_reset a) = scale a \<and>
   AccCalibrator_fix (AccCalibrator_reset a) v = AccCalibrator_fix a v"
  by (simp add: AccCalibrator_reset_def Calibrator_reset_def AccCalibrator_fix_def
      Calibrator_fix_def Vector_xyz_def Vector_set_def Vector_default_def)

subsection \<open>The magnetometer calibrator\<close>

text \<open>
  C4 as stated fails: the \<^verbatim>\<open>fix\<close> of a newly constructed magnetometer calibrator
  leaves \<open>(1, 2, 3)\<close> as it is, where \<open>(val + translation) * scale\<close>, the formula of
  \<^verbatim>\<open>Calibrator::fix\<close>, gives \<open>(0, 0, 0)\<close>.
\<close>

theorem C4_MagCalibrator_fix_counterexample:
  "MagCalibrator_fix MagCalibrator_new (Vector_xyz 1 2 3) = Vector_xyz 1 2 3 \<and>
   Vector_multiply (Vector_add (Vector_xyz 1 2 3) (translation MagCalibrator_new))
       (scale MagCalibrator_new) = Vector_xyz 0 0 0 \<and>
   MagCalibrator_fix MagCalibrator_new (Vector_xyz 1 2 3) \<noteq>
     Vector_multiply (Vector_add (Vector_xyz 1 2 3) (translation MagCalibrator_new))
       (scale MagCalibrator_new) \<and>
   MagCalibrator_fix MagCalibrator_new (Vector_xyz 1 2 3) \<noteq>
     Calibrator_fix MagCalibrator_new (Vector_xyz 1 2 3)"
  by (simp add: MagCalibrator_new_def Calibrator_new_def MagCalibrator_fix_def Calibrator_fix_def
      Vector_xyz_def Vector_set_def Vector_default_def Vector_add_def Vector_multiply_def)

text \<open>
  C4, amended. For every vector \<open>val\<close> and every magnetometer calibrator, whatever its
  translation and scale, \<^verbatim>\<open>fix\<close> leaves \<open>val\<close> unchanged: the override has an empty body
  and does not apply the formula of the accelerometer calibrator's \<^verbatim>\<open>fix\<close>.
\<close>

theorem C4_MagCalibrator_fix_unchanged: "MagCalibrator_fix m val = val"
  by (simp add: MagCalibrator_fix_def)

subsection \<open>The engine\<close>

text \<open>
  C5. \<^verbatim>\<open>start\<close> on a started engine returns the failure code \<open>-1\<close> and leaves the engine
  as it is; on an engine not started it returns 0 and sets \<^verbatim>\<open>started\<close>. \<^verbatim>\<open>stop\<close> on an
  engine not started returns \<open>-1\<close> and leaves the engine as it is; on a started engine it
  returns 0 and clears \<^verbatim>\<open>started\<close>.
\<close>

theorem C5_start_stop:
  "(started e \<longrightarrow> Akmtastic_start e path = (- 1, e)) \<and>
   (\<not> started e \<longrightarrow> Akmtastic_start e path = (0, e\<lparr>started := True\<rparr>)) \<and>
   (\<not> started e \<longrightarrow> Akmtastic_stop e = (- 1, e)) \<and>
   (started e \<longrightarrow> Akmtastic_stop e = (0, e\<lparr>started := False\<rparr>))"
  by (simp add: Akmtastic_start_def Akmtastic_stop_def)

text \<open>
  C5 on a newly constructed engine, which is not started, and on the same engine once
  started; the failure code differs from the success code.
\<close>

theorem C5_start_stop_witness:
  "\<not> started (Akmtastic_new False) \<and>
   Akmtastic_start (Akmtastic_new False) ''/dev/akm8973'' =
     (0, (Akmtastic_new False)\<lparr>started := True\<rparr>) \<and>
   Akmtastic_stop (Akmtastic_new False) = (- 1, Akmtastic_new False) \<and>
   started ((Akmtastic_new False)\<lparr>started := True\<rparr>) \<and>
   Akmtastic_start ((Akmtastic_new False)\<lparr>started := True\<rparr>) ''/dev/akm8973'' =
     (- 1, (Akmtastic_new False)\<lparr>started := True\<rparr>) \<and>
   fst (Akmtastic_stop ((Akmtastic_new False)\<lparr>started := True\<rparr>)) = 0 \<and>
   \<not> started (snd (Akmtastic_stop ((Akmtastic_new False)\<lparr>started := True\<rparr>))) \<and>
   (- 1 :: 32 word) \<noteq> 0"
  using C5_start_stop [of "Akmtastic_new False" "''/dev/akm8973''"]
        C5_start_stop [of "(Akmtastic_new False)\<lparr>started := True\<rparr>" "''/dev/akm8973''"]
  by (simp add: Akmtastic_new_def)

text \<open>
  C7. \<^verbatim>\<open>recalibrate()\<close> resets the accelerometer calibrator and nothing else: for every
  engine, the magnetometer calibrator (its translation and scale, which are all its
  state) and the cached magnetic vector are the same before and after.
\<close>

theorem C7_recalibrate_keeps_magCalibrator:
  "magCalibrator (Akmtastic_recalibrate e) = magCalibrator e \<and>
   magVal (Akmtastic_recalibrate e) = magVal e \<and>
   accCalibrator (Akmtastic_recalibrate e) = AccCalibrator_reset (accCalibrator e)"
  by (simp add: Akmtastic_recalibrate_def)

text \<open>
  C8. Two calls of \<^verbatim>\<open>pushMagnetic\<close> on the same engine with the same \<open>(x, y, z)\<close> and any
  two values of \<^verbatim>\<open>status\<close> and of \<^verbatim>\<open>period\<close> return the same code and the same
  engine; so after any further sequence of calls the engines are the same, and every
  getter returns the same on both.
\<close>

theorem C8_pushMagnetic_ignores_status_period:
  "Akmtastic_pushMagnetic e x y z status period =
     Akmtastic_pushMagnetic e x y z status' period' \<and>
   run cs (snd (Akmtastic_pushMagnetic e x y z status period)) =
     run cs (snd (Akmtastic_pushMagnetic e x y z status' period')) \<and>
   Akmtastic_getMagnetic (run cs (snd (Akmtastic_pushMagnetic e x y z status period))) =
     Akmtastic_getMagnetic (run cs (snd (Akmtastic_pushMagnetic e x y z status' period'))) \<and>
   Akmtastic_getOrientation (run cs (snd (Akmtastic_pushMagnetic e x y z status period))) =
     Akmtastic_getOrientation (run cs (snd (Akmtastic_pushMagnetic e x y z status' period')))"
  by (simp add: Akmtastic_pushMagnetic_def)

text \<open>
  C9. In every state that a sequence of calls reaches from a newly constructed engine,
  \<^verbatim>\<open>getCalibrationGoodness()\<close> returns 0.
\<close>

theorem C9_getCalibrationGoodness_zero:
  "Akmtastic_getCalibrationGoodness (run cs (Akmtastic_new oc)) = 0"
  by (simp add: Akmtastic_getCalibrationGoodness_def)

subsection \<open>The orientation\<close>











subsection \<open>The smoothing filter\<close>

text \<open>
  C10. The Average filter is the identity: for every vector \<open>v\<close>, pushing \<open>v\<close> returns
  \<open>v\<close> unchanged. So each calibrator is pushed the sample as converted, with no
  smoothing: the accelerometer calibrator after \<^verbatim>\<open>pushAcceleration\<close> is the one before
  pushed with \<open>(x, y, z) * (720 / sensitivity)\<close>, and the magnetometer calibrator after
  \<^verbatim>\<open>pushMagnetic\<close> is the one before pushed with \<open>(x, y, z)\<close>.
\<close>

theorem C10_Average_push_identity:
  "Average_push a v = v \<and>
   accCalibrator (snd (Akmtastic_pushAcceleration e x y z sensitivity)) =
     AccCalibrator_push (accCalibrator e)
       (Vector_multiply_f (Vector_xyz (to_float x) (to_float y) (to_float z))
          (720 / to_float sensitivity)) \<and>
   magCalibrator (snd (Akmtastic_pushMagnetic e x y z status period)) =
     MagCalibrator_push (magCalibrator e) (Vector_xyz (to_float x) (to_float y) (to_float z))"
  by (simp add: Average_push_def Akmtastic_pushAcceleration_def Akmtastic_pushMagnetic_def)

end
